theory Spec2Isabelle
  imports Complex_Main "HOL-Library.Word"
begin

section \<open>Values, errors and the world the server runs in\<close>

text \<open>
  Python numbers as the meter produces them: \<open>GetWavelength\<close> returns the \<open>int\<close> 0 on
  one path and a \<open>float\<close> on the others, and the two print differently. A finite
  float is a real number here (rounding to binary64 is not part of the model); the
  floats that are not finite, which the vendor library can hand back as a
  \<open>c_double\<close>, are values of their own.
\<close>

datatype nonfinite = NaN | PosInf | NegInf

datatype num = PyInt int | PyFloat real | PyNonFinite nonfinite

text \<open>The value of a finite number; a float that is not finite has none.\<close>

fun is_finite :: "num \<Rightarrow> bool" where
  "is_finite (PyInt i) = True"
| "is_finite (PyFloat x) = True"
| "is_finite (PyNonFinite n) = False"

fun val :: "num \<Rightarrow> real" where
  "val (PyInt i) = real_of_int i"
| "val (PyFloat x) = x"

text \<open>A \<open>c_double\<close> as the library returns or stores it, and the Python float it reads as.\<close>

datatype double = Finite real | NonFinite nonfinite

fun float_of_double :: "double \<Rightarrow> num" where
  "float_of_double (Finite x) = PyFloat x"
| "float_of_double (NonFinite n) = PyNonFinite n"

text \<open>The exceptions the modelled code can raise.\<close>

datatype error = IndexError | ValueError | WebSocketClosedError

text \<open>
  \<open>ctypes.c_long\<close> and the default result type \<open>c_int\<close> are 32 bits wide on the
  platform of \<open>ctypes.WinDLL\<close>; \<open>c_long(n)\<close> keeps the low 32 bits of \<open>n\<close> and a
  result is read back signed.
\<close>

type_synonym c_long = "32 word"
type_synonym c_int = "32 word"

definition c_long :: "int \<Rightarrow> c_long" where
  "c_long n = word_of_int n"

text \<open>The three array types \<open>GetPatternData\<close> can allocate, with their contents.\<close>

datatype ctype = c_ushort | c_ulong | c_double

datatype p_array =
    UShortArray "16 word list"
  | ULongArray "32 word list"
  | DoubleArray "double list"

text \<open>
  The vendor library \<open>wlmData.dll\<close> is not part of the repository: it is a parameter.
  Every entry takes the number of calls made to the library before this one, so that
  the instrument may answer differently each time it is asked.
\<close>

record driver =
  GetWavelengthNum :: "nat \<Rightarrow> c_long \<Rightarrow> real \<Rightarrow> double"
  GetSwitcherMode :: "nat \<Rightarrow> c_long \<Rightarrow> c_long"
  GetPatternItemCount :: "nat \<Rightarrow> c_long \<Rightarrow> c_int"
  GetPatternItemSize :: "nat \<Rightarrow> c_long \<Rightarrow> c_int"
  GetPatternDataNum :: "nat \<Rightarrow> c_long \<Rightarrow> c_long \<Rightarrow> p_array \<Rightarrow> c_int \<times> p_array"

text \<open>The fields of a \<open>WavelengthMeter\<close> that its methods read.\<close>

record meter =
  debug :: bool
  dll :: driver

text \<open>
  What the code can observe or change outside its arguments. \<open>Read\<close> records an entry
  into \<open>GetWavelength\<close>, \<open>Send\<close> a message handed to a connection, \<open>Print\<close> a line
  on standard output.
\<close>

datatype event = Read int | Send nat string | Print string

record world =
  clients :: "nat list"
  closing :: "nat list"
  trace :: "event list"
  rng :: "nat \<Rightarrow> nat"
  draws :: nat
  dll_calls :: nat

text \<open>
  \<open>clients\<close> is the module's list of connected handlers, each named by a number;
  \<open>closing\<close> lists the connections on which \<open>write_message\<close> raises;
  \<open>rng\<close> is the random generator as the sequence of raw numbers it will give, and
  \<open>draws\<close> how many of them have been taken; \<open>dll_calls\<close> counts the calls made to
  the vendor library.
\<close>

section \<open>The \<open>random\<close> module\<close>

text \<open>
  \<open>random.random()\<close> is a 53-bit fraction in \<open>[0, 1)\<close>; \<open>random.uniform(a, b)\<close> is
  \<open>a + (b - a) * random()\<close>; \<open>random.randint(a, b)\<close> is \<open>a\<close> plus a number below
  \<open>b - a + 1\<close>. Each takes the next raw number of the generator.
\<close>

definition random_random :: "world \<Rightarrow> real \<times> world" where
  "random_random w =
     (real (rng w (draws w) mod 2 ^ 53) / 2 ^ 53, w\<lparr>draws := Suc (draws w)\<rparr>)"

definition uniform :: "real \<Rightarrow> real \<Rightarrow> world \<Rightarrow> real \<times> world" where
  "uniform a b w = (case random_random w of (r, w') \<Rightarrow> (a + (b - a) * r, w'))"

definition randint :: "int \<Rightarrow> int \<Rightarrow> world \<Rightarrow> int \<times> world" where
  "randint a b w =
     (a + int (rng w (draws w) mod nat (b - a + 1)), w\<lparr>draws := Suc (draws w)\<rparr>)"

section \<open>\<open>wlm.py\<close>: the wavelength meter\<close>

text \<open>Indexing a Python list: a negative index counts from the end.\<close>

definition py_index :: "'a list \<Rightarrow> int \<Rightarrow> error + 'a" where
  "py_index xs i =
     (if 0 \<le> i \<and> i < int (length xs) then Inr (xs ! nat i)
      else if i < 0 \<and> - int (length xs) \<le> i then Inr (xs ! nat (int (length xs) + i))
      else Inl IndexError)"

text \<open>The table of simulated wavelengths inside \<open>GetWavelength\<close>.\<close>

definition wavelengths_table :: "num list" where
  "wavelengths_table =
     [PyFloat 460.8618, PyFloat 689.2643, PyFloat 679.2888, PyFloat 707.2016,
      PyFloat (460.8618 * 2), PyInt 0, PyInt 0, PyInt 0]"

text \<open>
  \<open>GetWavelength(channel)\<close>. The left operand \<open>wavelengths[channel - 1]\<close> is evaluated
  before \<open>random.uniform\<close> is called, so an \<open>IndexError\<close> takes no random number.
\<close>

definition GetWavelength :: "meter \<Rightarrow> int \<Rightarrow> world \<Rightarrow> (error + num) \<times> world" where
  "GetWavelength self channel w0 =
     (let w = w0\<lparr>trace := trace w0 @ [Read channel]\<rparr> in
      if \<not> debug self then
        (Inr (float_of_double
                (GetWavelengthNum (dll self) (dll_calls w) (c_long channel) 0)),
         w\<lparr>dll_calls := Suc (dll_calls w)\<rparr>)
      else if channel > 5 then (Inr (PyInt 0), w)
      else
        (case py_index wavelengths_table (channel - 1) of
           Inl e \<Rightarrow> (Inl e, w)
         | Inr b \<Rightarrow>
             (case uniform 0 0.0001 w of
                (u, w') \<Rightarrow> (Inr (PyFloat (val b + real_of_int channel * u)), w'))))"

text \<open>
  The property \<open>wavelengths\<close>: \<open>[self.GetWavelength(i + 1) for i in range(8)]\<close>. The
  comprehension stops at the first call that raises.
\<close>

fun GetWavelength_each :: "meter \<Rightarrow> int list \<Rightarrow> world \<Rightarrow> (error + num list) \<times> world" where
  "GetWavelength_each self [] w = (Inr [], w)"
| "GetWavelength_each self (i # rest) w =
     (case GetWavelength self (i + 1) w of
        (Inl e, w') \<Rightarrow> (Inl e, w')
      | (Inr v, w') \<Rightarrow>
          (case GetWavelength_each self rest w' of
             (Inl e, w'') \<Rightarrow> (Inl e, w'')
           | (Inr vs, w'') \<Rightarrow> (Inr (v # vs), w'')))"

definition wavelengths :: "meter \<Rightarrow> world \<Rightarrow> (error + num list) \<times> world" where
  "wavelengths self w = GetWavelength_each self (map int [0..<8]) w"

text \<open>The property \<open>switcher_mode\<close> (its getter).\<close>

definition switcher_mode :: "meter \<Rightarrow> world \<Rightarrow> int \<times> world" where
  "switcher_mode self w =
     (if \<not> debug self then
        (sint (GetSwitcherMode (dll self) (dll_calls w) (c_long 0)),
         w\<lparr>dll_calls := Suc (dll_calls w)\<rparr>)
      else (0, w))"

text \<open>
  \<open>GetPatternData(channel, index)\<close>. \<open>(ctype * item_count)()\<close> is an array of
  \<open>item_count\<close> zeros; building the array type raises \<open>ValueError\<close> when the count is
  negative. \<open>list(p_array)\<close> reads the array back as Python numbers.
\<close>

definition alloc :: "ctype \<Rightarrow> nat \<Rightarrow> p_array" where
  "alloc ct n =
     (case ct of
        c_ushort \<Rightarrow> UShortArray (replicate n 0)
      | c_ulong \<Rightarrow> ULongArray (replicate n 0)
      | c_double \<Rightarrow> DoubleArray (replicate n (Finite 0)))"

definition py_list :: "p_array \<Rightarrow> num list" where
  "py_list p =
     (case p of
        UShortArray xs \<Rightarrow> map (\<lambda>x. PyInt (uint x)) xs
      | ULongArray xs \<Rightarrow> map (\<lambda>x. PyInt (uint x)) xs
      | DoubleArray xs \<Rightarrow> map float_of_double xs)"

fun randint_each :: "nat \<Rightarrow> world \<Rightarrow> num list \<times> world" where
  "randint_each 0 w = ([], w)"
| "randint_each (Suc n) w =
     (case randint 0 1000 w of
        (x, w') \<Rightarrow> (case randint_each n w' of (xs, w'') \<Rightarrow> (PyInt x # xs, w'')))"

definition select_ctype :: "int \<Rightarrow> error + ctype" where
  "select_ctype item_size =
     (if item_size = 2 then Inr c_ushort
      else if item_size = 4 then Inr c_ulong
      else if item_size = 8 then Inr c_double
      else Inl ValueError)"

definition GetPatternData ::
  "meter \<Rightarrow> int \<Rightarrow> int \<Rightarrow> world \<Rightarrow> (error + int \<times> num list) \<times> world" where
  "GetPatternData self channel index w =
     (if \<not> debug self then
        (let item_count = sint (GetPatternItemCount (dll self) (dll_calls w) (c_long index));
             item_size = sint (GetPatternItemSize (dll self) (dll_calls w + 1) (c_long index));
             w2 = w\<lparr>dll_calls := dll_calls w + 2\<rparr>
         in if item_count = 0 \<or> item_size = 0 then (Inr (0, []), w2)
            else
              (case select_ctype item_size of
                 Inl e \<Rightarrow> (Inl e, w2)
               | Inr ct \<Rightarrow>
                   if item_count < 0 then (Inl ValueError, w2)
                   else
                     (case GetPatternDataNum (dll self) (dll_calls w + 3)
                             (c_long channel) (c_long index) (alloc ct (nat item_count)) of
                        (result, filled) \<Rightarrow>
                          (Inr (sint result, py_list filled),
                           w\<lparr>dll_calls := dll_calls w + 4\<rparr>))))
      else
        (case randint_each 10 w of (xs, w') \<Rightarrow> (Inr (0, xs), w')))"

text \<open>
  In the hardware branch the library is called four times: \<open>GetPatternItemCount\<close>,
  \<open>GetPatternItemSize\<close>, \<open>SetPattern\<close> (its result is dropped) and
  \<open>GetPatternDataNum\<close>, which is therefore the call number \<open>dll_calls w + 3\<close>.
\<close>

section \<open>Strings: \<open>str\<close>, \<open>"%.8f"\<close>, \<open>json.dumps\<close>, \<open>int\<close>\<close>

definition digit :: "nat \<Rightarrow> char" where
  "digit d = ''0123456789'' ! d"

fun dec :: "nat \<Rightarrow> string" where
  "dec n = (if n < 10 then [digit n] else dec (n div 10) @ [digit (n mod 10)])"

declare dec.simps [simp del]

definition str_int :: "int \<Rightarrow> string" where
  "str_int i = (if i < 0 then CHR ''-'' # dec (nat (- i)) else dec (nat i))"

text \<open>
  \<open>"%.8f" % x\<close> for a finite \<open>x\<close>: the sign, the integer digits, a point and eight
  digits, of \<open>x\<close> rounded to the nearest multiple of \<open>10\<^sup>-\<^sup>8\<close>, a tie going to the
  even one.
\<close>

definition round_half_even :: "real \<Rightarrow> int" where
  "round_half_even x =
     (if x - of_int \<lfloor>x\<rfloor> < 1 / 2 then \<lfloor>x\<rfloor>
      else if 1 / 2 < x - of_int \<lfloor>x\<rfloor> then \<lfloor>x\<rfloor> + 1
      else if even \<lfloor>x\<rfloor> then \<lfloor>x\<rfloor>
      else \<lfloor>x\<rfloor> + 1)"

definition fixed_8f :: "real \<Rightarrow> string" where
  "fixed_8f x =
     (let q = nat (round_half_even (\<bar>x\<bar> * 10 ^ 8)) in
      (if x < 0 then ''-'' else []) @ dec (q div 10 ^ 8) @ ''.'' @
      map (\<lambda>k. digit (q div 10 ^ k mod 10)) [7, 6, 5, 4, 3, 2, 1, 0])"

text \<open>
  \<open>"%.8f" % x\<close> for any number: an \<open>int\<close> is converted to a float first, and a float
  that is not finite prints as \<open>nan\<close>, \<open>inf\<close> or \<open>-inf\<close>, without a point. The
  conversion of an \<open>int\<close> is exact here, as it is for the only \<open>int\<close> that
  \<open>GetWavelength\<close> returns, 0 (lemma \<open>GetWavelength_result_kinds\<close>).
\<close>

fun format_8f :: "num \<Rightarrow> string" where
  "format_8f (PyInt i) = fixed_8f (real_of_int i)"
| "format_8f (PyFloat x) = fixed_8f x"
| "format_8f (PyNonFinite NaN) = ''nan''"
| "format_8f (PyNonFinite PosInf) = ''inf''"
| "format_8f (PyNonFinite NegInf) = ''-inf''"

text \<open>
  A string that reads as an optional minus sign, one or more digits, a point, and
  exactly eight digits.
\<close>

definition is_digit :: "char \<Rightarrow> bool" where
  "is_digit c = (c \<in> set ''0123456789'')"

definition fixed_8_decimals :: "string \<Rightarrow> bool" where
  "fixed_8_decimals s =
     (let t = (if s \<noteq> [] \<and> hd s = CHR ''-'' then tl s else s) in
      takeWhile is_digit t \<noteq> [] \<and>
      length (dropWhile is_digit t) = 9 \<and>
      hd (dropWhile is_digit t) = CHR ''.'' \<and>
      list_all is_digit (tl (dropWhile is_digit t)))"

text \<open>
  \<open>json.dumps\<close> of a list of numbers: the items separated by a comma and a space,
  between brackets. An \<open>int\<close> prints as \<open>str\<close> does; a finite \<open>float\<close> prints as
  its shortest decimal that reads back as the same binary64, which a real number does
  not determine: \<open>float_repr\<close> is a parameter; a float that is not finite prints as
  \<open>NaN\<close>, \<open>Infinity\<close> or \<open>-Infinity\<close>.
\<close>

fun json_number :: "(real \<Rightarrow> string) \<Rightarrow> num \<Rightarrow> string" where
  "json_number float_repr (PyInt i) = str_int i"
| "json_number float_repr (PyFloat x) = float_repr x"
| "json_number float_repr (PyNonFinite NaN) = ''NaN''"
| "json_number float_repr (PyNonFinite PosInf) = ''Infinity''"
| "json_number float_repr (PyNonFinite NegInf) = ''-Infinity''"

fun join :: "string \<Rightarrow> string list \<Rightarrow> string" where
  "join sep [] = []"
| "join sep [x] = x"
| "join sep (x # y # rest) = x @ sep @ join sep (y # rest)"

definition json_dumps :: "(real \<Rightarrow> string) \<Rightarrow> num list \<Rightarrow> string" where
  "json_dumps float_repr data =
     ''['' @ join '', '' (map (json_number float_repr) data) @ '']''"

text \<open>
  \<open>int(s)\<close> on an ASCII string: white space around (space, tab, line feed, vertical
  tab, form feed, carriage return), one optional sign, then decimal digits, where a
  single underscore may stand between two digits; more than 4300 digits (the
  interpreter's default limit, \<open>sys.int_max_str_digits\<close>) are refused. Anything else
  raises \<open>ValueError\<close>. The model returns a number for ASCII strings only; on a
  string with a character outside ASCII it raises, where Python accepts the decimal
  digits and spaces of other scripts.
\<close>

definition is_space :: "char \<Rightarrow> bool" where
  "is_space c = (c \<in> set [CHR '' '', CHR 0x09, CHR 0x0A, CHR 0x0B, CHR 0x0C, CHR 0x0D])"

definition int_max_str_digits :: nat where
  "int_max_str_digits = 4300"

definition digit_val :: "char \<Rightarrow> nat" where
  "digit_val c = of_char c - 48"

fun int_digits :: "nat \<Rightarrow> string \<Rightarrow> error + nat" where
  "int_digits acc [] = Inr acc"
| "int_digits acc [c] =
     (if is_digit c then Inr (10 * acc + digit_val c) else Inl ValueError)"
| "int_digits acc (c # d # rest) =
     (if is_digit c then int_digits (10 * acc + digit_val c) (d # rest)
      else if c = CHR ''_'' \<and> is_digit d then int_digits (10 * acc + digit_val d) rest
      else Inl ValueError)"

definition py_int :: "string \<Rightarrow> error + int" where
  "py_int s =
     (let t = rev (dropWhile is_space (rev (dropWhile is_space s)));
          neg = (t \<noteq> [] \<and> hd t = CHR ''-'');
          body = (if t \<noteq> [] \<and> (hd t = CHR ''-'' \<or> hd t = CHR ''+'') then tl t else t)
      in case body of
           [] \<Rightarrow> Inl ValueError
         | c # rest \<Rightarrow>
             if is_digit c \<and> length (filter is_digit body) \<le> int_max_str_digits then
               (case int_digits (digit_val c) rest of
                  Inl e \<Rightarrow> Inl e
                | Inr n \<Rightarrow> Inr (if neg then - int n else int n))
             else Inl ValueError)"

section \<open>\<open>server.py\<close>: the connected clients and the broadcast\<close>

text \<open>
  \<open>WebSocketHandler.write_message\<close> belongs to Tornado: on a connection that is
  closed or closing it raises \<open>WebSocketClosedError\<close>, otherwise it takes the message.
\<close>

definition write_message :: "nat \<Rightarrow> string \<Rightarrow> world \<Rightarrow> (error + unit) \<times> world" where
  "write_message c message w =
     (if c \<in> set (closing w) then (Inl WebSocketClosedError, w)
      else (Inr (), w\<lparr>trace := trace w @ [Send c message]\<rparr>))"

text \<open>\<open>for c in clients: c.write_message(json.dumps(data))\<close>\<close>

fun write_each :: "string \<Rightarrow> nat list \<Rightarrow> world \<Rightarrow> (error + unit) \<times> world" where
  "write_each message [] w = (Inr (), w)"
| "write_each message (c # rest) w =
     (case write_message c message w of
        (Inl e, w') \<Rightarrow> (Inl e, w')
      | (Inr _, w') \<Rightarrow> write_each message rest w')"

definition send_data :: "(real \<Rightarrow> string) \<Rightarrow> meter \<Rightarrow> world \<Rightarrow> (error + unit) \<times> world" where
  "send_data float_repr wlmeter w =
     (if length (clients w) > 0 then
        (case wavelengths wlmeter w of
           (Inl e, w') \<Rightarrow> (Inl e, w')
         | (Inr data, w') \<Rightarrow> write_each (json_dumps float_repr data) (clients w') w')
      else (Inr (), w))"

text \<open>\<open>WsHandler.open\<close> and \<open>WsHandler.on_close\<close>, for the handler \<open>self\<close>.\<close>

definition WsHandler_open :: "nat \<Rightarrow> world \<Rightarrow> world" where
  "WsHandler_open self w = w\<lparr>clients := clients w @ [self]\<rparr>"

text \<open>\<open>list.remove(x)\<close> takes out the first item equal to \<open>x\<close> and raises when there is none.\<close>

fun list_remove :: "'a \<Rightarrow> 'a list \<Rightarrow> error + 'a list" where
  "list_remove x [] = Inl ValueError"
| "list_remove x (y # ys) =
     (if y = x then Inr ys
      else (case list_remove x ys of Inl e \<Rightarrow> Inl e | Inr zs \<Rightarrow> Inr (y # zs)))"

definition WsHandler_on_close :: "nat \<Rightarrow> world \<Rightarrow> (error + unit) \<times> world" where
  "WsHandler_on_close self w =
     (case list_remove self (clients w) of
        Inl e \<Rightarrow> (Inl e, w)
      | Inr cs \<Rightarrow>
          (Inr (), w\<lparr>clients := cs, trace := trace w @ [Print ''connection closed'']\<rparr>))"

section \<open>\<open>server.py\<close>: the query handler\<close>

text \<open>What \<open>self.write\<close> is given, and the response: its status and the chunk written.\<close>

datatype pyobj = Num num | Str string | List "pyobj list" | Dict "(string \<times> pyobj) list"

record response =
  status :: nat
  body :: pyobj

text \<open>
  \<open>ApiHandler.get(channel)\<close>: \<open>channel\<close> is \<open>None\<close> on the route \<open>api/\<close> and the text
  of the captured group on the route \<open>api/(\d)/\<close>.
\<close>

definition ApiHandler_get ::
  "meter \<Rightarrow> string option \<Rightarrow> world \<Rightarrow> (error + response) \<times> world" where
  "ApiHandler_get wlmeter channel w0 =
     (case wavelengths wlmeter w0 of
        (Inl e, w1) \<Rightarrow> (Inl e, w1)
      | (Inr w, w1) \<Rightarrow>
          (case switcher_mode wlmeter w1 of
             (sw, w2) \<Rightarrow>
               (case channel of
                  None \<Rightarrow>
                    (Inr \<lparr>status = 200,
                          body = Dict [(''wavelengths'', List (map Num w)),
                                       (''switcher_mode'', Num (PyInt sw))]\<rparr>, w2)
                | Some c \<Rightarrow>
                    (case py_int c of
                       Inl e \<Rightarrow> (Inl e, w2)
                     | Inr ch \<Rightarrow>
                         if ch \<ge> 0 \<and> ch < int (length w) then
                           (Inr \<lparr>status = 200, body = Str (format_8f (w ! nat ch))\<rparr>, w2)
                         else
                           (Inr \<lparr>status = 400,
                                 body = Dict [(''error'', Str ''Wrong channel'')]\<rparr>, w2)))))"

section \<open>Concrete meters and worlds\<close>

text \<open>A library that answers with numbers made from its arguments.\<close>

definition bench_driver :: driver where
  "bench_driver =
     \<lparr>GetWavelengthNum = (\<lambda>t ch x. Finite (600 + real (unat ch) + real t / 1000)),
      GetSwitcherMode = (\<lambda>t x. 1),
      GetPatternItemCount = (\<lambda>t i. 3),
      GetPatternItemSize = (\<lambda>t i. 2),
      GetPatternDataNum =
        (\<lambda>t ch i p. (7, case p of UShortArray xs \<Rightarrow> UShortArray (map (\<lambda>x. 5) xs) | _ \<Rightarrow> p))\<rparr>"

text \<open>A library that reports a negative item count, and one that reports a size of 3.\<close>

definition negative_count_driver :: driver where
  "negative_count_driver = bench_driver\<lparr>GetPatternItemCount := (\<lambda>t i. - 1)\<rparr>"

definition odd_size_driver :: driver where
  "odd_size_driver = bench_driver\<lparr>GetPatternItemSize := (\<lambda>t i. 3)\<rparr>"

definition sim_meter :: meter where
  "sim_meter = \<lparr>debug = True, dll = bench_driver\<rparr>"

definition hw_meter :: meter where
  "hw_meter = \<lparr>debug = False, dll = bench_driver\<rparr>"

text \<open>A library whose wavelength is not a number.\<close>

definition nan_driver :: driver where
  "nan_driver = bench_driver\<lparr>GetWavelengthNum := (\<lambda>t ch x. NonFinite NaN)\<rparr>"

definition nan_meter :: meter where
  "nan_meter = \<lparr>debug = False, dll = nan_driver\<rparr>"

text \<open>Hardware meters on the libraries above, and on one that reports no items.\<close>

definition no_items_meter :: meter where
  "no_items_meter = \<lparr>debug = False, dll = bench_driver\<lparr>GetPatternItemCount := (\<lambda>t i. 0)\<rparr>\<rparr>"

definition negative_count_meter :: meter where
  "negative_count_meter = \<lparr>debug = False, dll = negative_count_driver\<rparr>"

definition odd_size_meter :: meter where
  "odd_size_meter = \<lparr>debug = False, dll = odd_size_driver\<rparr>"

definition idle_world :: world where
  "idle_world =
     \<lparr>clients = [], closing = [], trace = [], rng = (\<lambda>k. 2 ^ 50 * (k mod 8)), draws = 0,
      dll_calls = 0\<rparr>"

definition three_clients :: world where
  "three_clients = idle_world\<lparr>clients := [1, 2, 3]\<rparr>"

text \<open>Three registered clients, the second on a connection that no longer takes messages.\<close>

definition stale_client :: world where
  "stale_client = idle_world\<lparr>clients := [1, 2, 3], closing := [2]\<rparr>"

text \<open>The events that hand a message to a connection.\<close>

fun is_send :: "event \<Rightarrow> bool" where
  "is_send (Send c message) = True"
| "is_send (Read channel) = False"
| "is_send (Print line) = False"

text \<open>Floats printed as whole numbers: enough to run \<open>json.dumps\<close> on an example.\<close>

definition whole_repr :: "real \<Rightarrow> string" where
  "whole_repr x = str_int \<lfloor>x\<rfloor>"

section \<open>The simulated wavelength read\<close>

lemma random_random_range:
  "0 \<le> fst (random_random w) \<and> fst (random_random w) < 1"
proof -
  have "rng w (draws w) mod 2 ^ 53 < (2 ^ 53 :: nat)" by simp
  then have "real (rng w (draws w) mod 2 ^ 53) < 2 ^ 53"
    by (metis of_nat_less_iff of_nat_numeral of_nat_power)
  then show ?thesis by (simp add: random_random_def)
qed

lemma uniform_jitter_range:
  "0 \<le> fst (uniform 0 0.0001 w) \<and> fst (uniform 0 0.0001 w) \<le> 0.0001"
proof -
  obtain r w' where rw: "random_random w = (r, w')" by (cases "random_random w")
  with random_random_range [of w] have "0 \<le> r" "r < 1" by simp_all
  then show ?thesis by (simp add: uniform_def rw)
qed

lemma py_index_nonneg:
  "0 \<le> i \<Longrightarrow> i < int (length xs) \<Longrightarrow> py_index xs i = Inr (xs ! nat i)"
  by (simp add: py_index_def)

lemma py_index_neg:
  "i < 0 \<Longrightarrow> - int (length xs) \<le> i \<Longrightarrow> py_index xs i = Inr (xs ! nat (int (length xs) + i))"
  by (simp add: py_index_def)

lemma py_index_below: "i < - int (length xs) \<Longrightarrow> py_index xs i = Inl IndexError"
  by (simp add: py_index_def)

lemma length_wavelengths_table: "length wavelengths_table = 8"
  by (simp add: wavelengths_table_def)

lemma wavelengths_table_tail:
  assumes "5 \<le> i" and "i < 8"
  shows "wavelengths_table ! nat i = PyInt 0"
proof -
  from assms have "i = 5 \<or> i = 6 \<or> i = 7" by arith
  then show ?thesis by (auto simp: wavelengths_table_def nth_Cons')
qed

lemma GetWavelength_debug_indexed:
  assumes "debug self" and "channel \<le> 5"
    and "py_index wavelengths_table (channel - 1) = Inr b"
  shows "GetWavelength self channel w =
     (Inr (PyFloat (val b + real_of_int channel *
        fst (uniform 0 0.0001 (w\<lparr>trace := trace w @ [Read channel]\<rparr>)))),
      snd (uniform 0 0.0001 (w\<lparr>trace := trace w @ [Read channel]\<rparr>)))"
  using assms by (simp add: GetWavelength_def Let_def split: prod.splits)

lemma GetWavelength_debug_bounds:
  assumes "debug self" and "0 \<le> i" and "i < 8"
  shows "\<exists>v. fst (GetWavelength self (i + 1) w) = Inr v \<and> is_finite v \<and>
           val (wavelengths_table ! nat i) \<le> val v \<and>
           val v \<le> val (wavelengths_table ! nat i) + real_of_int (i + 1) * 0.0001 \<and>
           (5 < i + 1 \<longrightarrow> v = PyInt 0)"
proof (cases "5 < i + 1")
  case True
  with assms have "wavelengths_table ! nat i = PyInt 0"
    by (simp add: wavelengths_table_tail)
  moreover from True assms have "fst (GetWavelength self (i + 1) w) = Inr (PyInt 0)"
    by (simp add: GetWavelength_def Let_def)
  moreover from assms have "(0::real) \<le> real_of_int (i + 1) * 0.0001" by simp
  ultimately show ?thesis by simp
next
  case False
  define u where "u = fst (uniform 0 0.0001 (w\<lparr>trace := trace w @ [Read (i + 1)]\<rparr>))"
  have u: "0 \<le> u" "u \<le> 0.0001"
    using uniform_jitter_range [of "w\<lparr>trace := trace w @ [Read (i + 1)]\<rparr>"]
    by (simp_all add: u_def)
  from assms False
  have "py_index wavelengths_table (i + 1 - 1) = Inr (wavelengths_table ! nat i)"
    by (simp add: py_index_nonneg length_wavelengths_table)
  with assms False have g: "fst (GetWavelength self (i + 1) w) =
      Inr (PyFloat (val (wavelengths_table ! nat i) + real_of_int (i + 1) * u))"
    by (simp add: GetWavelength_debug_indexed u_def)
  from assms u have "0 \<le> real_of_int (i + 1) * u"
    and "real_of_int (i + 1) * u \<le> real_of_int (i + 1) * 0.0001"
    by (simp_all add: mult_left_mono)
  with g False show ?thesis by simp
qed


text \<open>
  Claim C2. In debug mode, for every channel index \<open>i\<close> from 0 to 7 the read
  \<open>GetWavelength(i + 1)\<close> returns a value between the \<open>i\<close>-th entry of the table and
  that entry plus \<open>(i + 1) * 0.0001\<close>; for the channels above 5, which the simulation
  does not support, it returns zero.
\<close>

theorem GetWavelength_simulated_jitter:
  assumes "debug self" and "0 \<le> i" and "i < 8"
  shows "\<exists>v. fst (GetWavelength self (i + 1) w) = Inr v \<and> is_finite v \<and>
           val (wavelengths_table ! nat i) \<le> val v \<and>
           val v \<le> val (wavelengths_table ! nat i) + real_of_int (i + 1) * 0.0001 \<and>
           (5 < i + 1 \<longrightarrow> v = PyInt 0)"
  using assms by (rule GetWavelength_debug_bounds)

theorem GetWavelength_simulated_jitter_witness:
  "debug sim_meter \<and> (0::int) \<le> 2 \<and> (2::int) < 8 \<and>
   fst (GetWavelength sim_meter 3 idle_world) = Inr (PyFloat 679.2888) \<and>
   fst (GetWavelength sim_meter 3 (idle_world\<lparr>draws := 4\<rparr>)) = Inr (PyFloat 679.28895) \<and>
   val (wavelengths_table ! 2) \<le> 679.28895 \<and>
   679.28895 \<le> val (wavelengths_table ! 2) + 3 * 0.0001 \<and>
   fst (GetWavelength sim_meter 7 idle_world) = Inr (PyInt 0)"
  using GetWavelength_simulated_jitter [of sim_meter 2 idle_world]
  by (simp add: GetWavelength_def sim_meter_def idle_world_def Let_def py_index_def
      wavelengths_table_def uniform_def random_random_def)

section \<open>Channel arguments below 1\<close>

text \<open>
  Claim C10. In debug mode \<open>GetWavelength\<close> does not check its argument from below:
  for \<open>c\<close> from -7 to 0 it reads the table from the end (entry \<open>c + 7\<close>) and returns a
  value instead of an error, so channel 0 gives 0 and channel -1 gives minus the
  jitter; for \<open>c\<close> at or below -8 the read raises \<open>IndexError\<close>.
\<close>

theorem GetWavelength_low_channels:
  assumes "debug self"
  shows "(- 7 \<le> c \<and> c \<le> 0 \<longrightarrow>
            fst (GetWavelength self c w) =
              Inr (PyFloat (val (wavelengths_table ! nat (c + 7)) +
                real_of_int c * fst (uniform 0 0.0001 (w\<lparr>trace := trace w @ [Read c]\<rparr>))))) \<and>
         (c \<le> - 8 \<longrightarrow> fst (GetWavelength self c w) = Inl IndexError) \<and>
         fst (GetWavelength self 0 w) = Inr (PyFloat 0) \<and>
         (\<exists>u. 0 \<le> u \<and> fst (GetWavelength self (- 1) w) = Inr (PyFloat (- u)))"
proof (intro conjI impI)
  assume c: "- 7 \<le> c \<and> c \<le> 0"
  then have "py_index wavelengths_table (c - 1) = Inr (wavelengths_table ! nat (c + 7))"
    by (simp add: py_index_neg length_wavelengths_table add.commute)
  with assms c show "fst (GetWavelength self c w) =
              Inr (PyFloat (val (wavelengths_table ! nat (c + 7)) +
                real_of_int c * fst (uniform 0 0.0001 (w\<lparr>trace := trace w @ [Read c]\<rparr>))))"
    by (simp add: GetWavelength_debug_indexed)
next
  assume "c \<le> - 8"
  then have "py_index wavelengths_table (c - 1) = Inl IndexError"
    by (simp add: py_index_below length_wavelengths_table)
  with assms \<open>c \<le> - 8\<close> show "fst (GetWavelength self c w) = Inl IndexError"
    by (simp add: GetWavelength_def Let_def)
next
  have "py_index wavelengths_table (0 - 1) = Inr (PyInt 0)"
    by (simp add: py_index_def wavelengths_table_def)
  with assms show "fst (GetWavelength self 0 w) = Inr (PyFloat 0)"
    by (simp add: GetWavelength_debug_indexed)
next
  have "py_index wavelengths_table (- 1 - 1) = Inr (PyInt 0)"
    by (simp add: py_index_def wavelengths_table_def)
  with assms have "fst (GetWavelength self (- 1) w) =
      Inr (PyFloat (- fst (uniform 0 0.0001 (w\<lparr>trace := trace w @ [Read (- 1)]\<rparr>))))"
    by (simp add: GetWavelength_debug_indexed)
  with uniform_jitter_range [of "w\<lparr>trace := trace w @ [Read (- 1)]\<rparr>"]
  show "\<exists>u. 0 \<le> u \<and> fst (GetWavelength self (- 1) w) = Inr (PyFloat (- u))"
    by blast
qed

theorem GetWavelength_low_channels_witness:
  "debug sim_meter \<and>
   fst (GetWavelength sim_meter (- 7) (idle_world\<lparr>draws := 4\<rparr>)) =
     Inr (PyFloat 460.86145) \<and>
   fst (GetWavelength sim_meter (- 1) (idle_world\<lparr>draws := 4\<rparr>)) =
     Inr (PyFloat (- 0.00005)) \<and>
   fst (GetWavelength sim_meter 0 idle_world) = Inr (PyFloat 0) \<and>
   fst (GetWavelength sim_meter (- 8) idle_world) = Inl IndexError"
  using GetWavelength_low_channels [of sim_meter "- 7" "idle_world\<lparr>draws := 4\<rparr>"]
    GetWavelength_low_channels [of sim_meter "- 8" idle_world]
  by (simp add: sim_meter_def idle_world_def wavelengths_table_def uniform_def random_random_def GetWavelength_def Let_def py_index_def)

section \<open>One read of all eight channels\<close>

lemma GetWavelength_frame:
  "clients (snd (GetWavelength self c w)) = clients w \<and>
   closing (snd (GetWavelength self c w)) = closing w \<and>
   trace (snd (GetWavelength self c w)) = trace w @ [Read c]"
  by (simp add: GetWavelength_def Let_def uniform_def random_random_def
      split: sum.splits prod.splits)

lemma GetWavelength_returns:
  assumes "\<not> debug self \<or> - 7 \<le> c"
  shows "\<exists>v. fst (GetWavelength self c w) = Inr v"
proof (cases "debug self \<and> c \<le> 5")
  case True
  with assms have "- 7 \<le> c" "c \<le> 5" by simp_all
  then have "\<exists>b. py_index wavelengths_table (c - 1) = Inr b"
    by (simp add: py_index_def length_wavelengths_table)
  with True show ?thesis by (auto simp: GetWavelength_debug_indexed)
next
  case False
  then show ?thesis by (auto simp: GetWavelength_def Let_def)
qed

lemma GetWavelength_result_kinds:
  assumes "fst (GetWavelength self c w) = Inr v"
  shows "v = PyInt 0 \<or> (\<exists>x. v = PyFloat x) \<or> (\<exists>n. v = PyNonFinite n)"
proof (cases v)
  case (PyInt i)
  with assms show ?thesis
    by (cases "GetWavelengthNum (dll self) (dll_calls w) (c_long c) 0")
       (auto simp: GetWavelength_def Let_def uniform_def random_random_def
          split: if_splits sum.splits prod.splits)
qed simp_all

lemma GetWavelength_each_frame:
  "clients (snd (GetWavelength_each self cs w)) = clients w \<and>
   closing (snd (GetWavelength_each self cs w)) = closing w"
proof (induction cs arbitrary: w)
  case Nil
  show ?case by simp
next
  case (Cons i cs)
  obtain r w' where g: "GetWavelength self (i + 1) w = (r, w')"
    by (cases "GetWavelength self (i + 1) w")
  with GetWavelength_frame [of self "i + 1" w]
  have f: "clients w' = clients w" "closing w' = closing w" by simp_all
  show ?case
  proof (cases r)
    case (Inl e)
    with g f show ?thesis by simp
  next
    case (Inr v)
    obtain r' w'' where e: "GetWavelength_each self cs w' = (r', w'')"
      by (cases "GetWavelength_each self cs w'")
    with Cons.IH [of w'] f have "clients w'' = clients w" "closing w'' = closing w"
      by simp_all
    with g Inr e show ?thesis by (cases r') simp_all
  qed
qed

lemma GetWavelength_each_returns:
  assumes "\<not> debug self \<or> (\<forall>i \<in> set cs. - 8 \<le> i)"
  shows "\<exists>vs. fst (GetWavelength_each self cs w) = Inr vs \<and> length vs = length cs \<and>
           trace (snd (GetWavelength_each self cs w)) = trace w @ map (\<lambda>i. Read (i + 1)) cs"
  using assms
proof (induction cs arbitrary: w)
  case Nil
  show ?case by simp
next
  case (Cons i cs)
  from Cons.prems have "\<not> debug self \<or> - 7 \<le> i + 1" by auto
  then obtain v where v: "fst (GetWavelength self (i + 1) w) = Inr v"
    using GetWavelength_returns by blast
  define w' where "w' = snd (GetWavelength self (i + 1) w)"
  from v have g: "GetWavelength self (i + 1) w = (Inr v, w')"
    by (simp add: w'_def prod_eq_iff)
  have t: "trace w' = trace w @ [Read (i + 1)]"
    using GetWavelength_frame [of self "i + 1" w] by (simp add: w'_def)
  from Cons.prems have "\<not> debug self \<or> (\<forall>i \<in> set cs. - 8 \<le> i)" by auto
  from Cons.IH [OF this, of w'] obtain vs
    where vs: "fst (GetWavelength_each self cs w') = Inr vs" "length vs = length cs"
      "trace (snd (GetWavelength_each self cs w')) = trace w' @ map (\<lambda>i. Read (i + 1)) cs"
    by blast
  obtain w'' where e: "GetWavelength_each self cs w' = (Inr vs, w'')"
    using vs(1) by (cases "GetWavelength_each self cs w'") simp
  with g vs t show ?case by simp
qed

lemma range_8: "map int [0..<8] = [0, 1, 2, 3, 4, 5, 6, 7]"
  by (simp add: upt_rec)

lemma wavelengths_returns:
  "\<exists>data w1. wavelengths self w = (Inr data, w1) \<and> length data = 8 \<and>
     clients w1 = clients w \<and> closing w1 = closing w \<and>
     trace w1 = trace w @ [Read 1, Read 2, Read 3, Read 4, Read 5, Read 6, Read 7, Read 8]"
proof -
  have "\<not> debug self \<or> (\<forall>i \<in> set (map int [0..<8]). - 8 \<le> i)" by simp
  from GetWavelength_each_returns [OF this, of w] obtain vs
    where vs: "fst (GetWavelength_each self (map int [0..<8]) w) = Inr vs"
      "length vs = length (map int [0..<8])"
      "trace (snd (GetWavelength_each self (map int [0..<8]) w)) =
         trace w @ map (\<lambda>i. Read (i + 1)) (map int [0..<8])"
    by blast
  obtain w1 where w1: "GetWavelength_each self (map int [0..<8]) w = (Inr vs, w1)"
    using vs(1) by (cases "GetWavelength_each self (map int [0..<8]) w") simp
  have "clients w1 = clients w" "closing w1 = closing w"
    using GetWavelength_each_frame [of self "map int [0..<8]" w] w1 by simp_all
  moreover have "trace w1 = trace w @ [Read 1, Read 2, Read 3, Read 4, Read 5, Read 6, Read 7, Read 8]"
    using vs(3) w1 by (simp add: range_8)
  moreover have "length vs = 8" using vs(2) by simp
  ultimately show ?thesis using w1 by (simp add: wavelengths_def)
qed

lemma write_each_all:
  assumes "set cs \<inter> set (closing w) = {}"
  shows "write_each message cs w =
           (Inr (), w\<lparr>trace := trace w @ map (\<lambda>c. Send c message) cs\<rparr>)"
  using assms
proof (induction cs arbitrary: w)
  case Nil
  show ?case by simp
next
  case (Cons c cs)
  then have "c \<notin> set (closing w)"
    and "set cs \<inter> set (closing (w\<lparr>trace := trace w @ [Send c message]\<rparr>)) = {}"
    by auto
  with Cons.IH [of "w\<lparr>trace := trace w @ [Send c message]\<rparr>"]
  show ?case by (simp add: write_message_def)
qed

lemma write_each_stops:
  assumes "set pre \<inter> set (closing w) = {}" and "c \<in> set (closing w)"
  shows "write_each message (pre @ c # post) w =
           (Inl WebSocketClosedError, w\<lparr>trace := trace w @ map (\<lambda>c. Send c message) pre\<rparr>)"
  using assms
proof (induction pre arbitrary: w)
  case Nil
  then show ?case by (simp add: write_message_def)
next
  case (Cons p pre)
  then have "p \<notin> set (closing w)"
    and "set pre \<inter> set (closing (w\<lparr>trace := trace w @ [Send p message]\<rparr>)) = {}"
    and "c \<in> set (closing (w\<lparr>trace := trace w @ [Send p message]\<rparr>))"
    by auto
  with Cons.IH [of "w\<lparr>trace := trace w @ [Send p message]\<rparr>"]
  show ?case by (simp add: write_message_def)
qed

section \<open>The broadcast tick\<close>

text \<open>
  Claim C3, as stated, fails: with three registered clients, the second on a closed
  connection, one run of \<open>send_data\<close> hands over one message, not three.
\<close>

theorem send_data_closed_connection_counterexample:
  "length (clients stale_client) = 3 \<and>
   length (filter is_send (trace (snd (send_data whole_repr hw_meter stale_client)))) = 1"
  by (simp add: send_data_def wavelengths_def range_8 GetWavelength_def Let_def hw_meter_def
      stale_client_def idle_world_def write_message_def)

text \<open>
  Claim C3, amended. With one or more registered clients, all on connections that take
  messages, one run of \<open>send_data\<close> reads the eight wavelengths exactly once (channels 1
  to 8, each once, in order) and then hands one message to every client, in the order
  of the list: the same text, \<open>json.dumps\<close> of the eight values that read gave.
\<close>

theorem send_data_one_poll_n_payloads:
  assumes "clients w \<noteq> []" and "set (clients w) \<inter> set (closing w) = {}"
  shows "\<exists>data w1. wavelengths wlmeter w = (Inr data, w1) \<and> length data = 8 \<and>
           trace w1 = trace w @
             [Read 1, Read 2, Read 3, Read 4, Read 5, Read 6, Read 7, Read 8] \<and>
           send_data float_repr wlmeter w =
             (Inr (), w1\<lparr>trace := trace w1 @
                map (\<lambda>c. Send c (json_dumps float_repr data)) (clients w)\<rparr>)"
proof -
  from wavelengths_returns [of wlmeter w] obtain data w1
    where r: "wavelengths wlmeter w = (Inr data, w1)" "length data = 8"
      "clients w1 = clients w" "closing w1 = closing w"
      "trace w1 = trace w @ [Read 1, Read 2, Read 3, Read 4, Read 5, Read 6, Read 7, Read 8]"
    by blast
  from assms(2) r have "set (clients w1) \<inter> set (closing w1) = {}" by simp
  then have "write_each (json_dumps float_repr data) (clients w1) w1 =
      (Inr (), w1\<lparr>trace := trace w1 @
         map (\<lambda>c. Send c (json_dumps float_repr data)) (clients w1)\<rparr>)"
    by (rule write_each_all)
  with assms(1) r have "send_data float_repr wlmeter w =
      (Inr (), w1\<lparr>trace := trace w1 @
         map (\<lambda>c. Send c (json_dumps float_repr data)) (clients w)\<rparr>)"
    by (simp add: send_data_def)
  with r show ?thesis by blast
qed

lemma three_clients_sim_data:
  "fst (wavelengths sim_meter three_clients) =
     Inr [PyFloat 460.8618, PyFloat 689.264325, PyFloat 679.288875, PyFloat 707.20175,
          PyFloat 921.72385, PyInt 0, PyInt 0, PyInt 0]"
  by (simp add: wavelengths_def range_8 GetWavelength_def Let_def sim_meter_def
      three_clients_def idle_world_def py_index_def wavelengths_table_def uniform_def
      random_random_def)

theorem send_data_one_poll_n_payloads_witness:
  "clients three_clients \<noteq> [] \<and>
   set (clients three_clients) \<inter> set (closing three_clients) = {} \<and>
   fst (send_data whole_repr sim_meter three_clients) = Inr () \<and>
   trace (snd (send_data whole_repr sim_meter three_clients)) =
     [Read 1, Read 2, Read 3, Read 4, Read 5, Read 6, Read 7, Read 8,
      Send 1 ''[460, 689, 679, 707, 921, 0, 0, 0]'',
      Send 2 ''[460, 689, 679, 707, 921, 0, 0, 0]'',
      Send 3 ''[460, 689, 679, 707, 921, 0, 0, 0]'']"
proof -
  have h: "clients three_clients \<noteq> []"
    "set (clients three_clients) \<inter> set (closing three_clients) = {}"
    by (simp_all add: three_clients_def idle_world_def)
  have t: "trace three_clients = []" "clients three_clients = [1, 2, 3]"
    by (simp_all add: three_clients_def idle_world_def)
  have j: "json_dumps whole_repr
      [PyFloat 460.8618, PyFloat 689.264325, PyFloat 679.288875, PyFloat 707.20175,
       PyFloat 921.72385, PyInt 0, PyInt 0, PyInt 0] = ''[460, 689, 679, 707, 921, 0, 0, 0]''"
    by (simp add: json_dumps_def whole_repr_def str_int_def dec.simps digit_def)
  from send_data_one_poll_n_payloads [OF h, of sim_meter whole_repr] three_clients_sim_data
  show ?thesis using h t j by auto
qed

text \<open>
  Claim C4. With no registered client \<open>send_data\<close> changes nothing: no wavelength is
  read, no random number taken, no call made to the library, no message sent.
\<close>

theorem send_data_no_clients:
  assumes "clients w = []"
  shows "send_data float_repr wlmeter w = (Inr (), w)"
  using assms by (simp add: send_data_def)

theorem send_data_no_clients_witness:
  "clients idle_world = [] \<and>
   send_data whole_repr hw_meter idle_world = (Inr (), idle_world) \<and>
   trace (snd (send_data whole_repr hw_meter idle_world)) = [] \<and>
   dll_calls (snd (send_data whole_repr hw_meter idle_world)) = 0 \<and>
   draws (snd (send_data whole_repr sim_meter idle_world)) = 0"
proof -
  have h: "clients idle_world = []" by (simp add: idle_world_def)
  from send_data_no_clients [OF h] show ?thesis
    by (simp add: idle_world_def)
qed

text \<open>
  Claim C6, as stated, fails: when the second of three clients is on a closed
  connection, the error leaves \<open>send_data\<close>, the third client is sent nothing and the
  second stays in the list.
\<close>

theorem send_data_failure_counterexample:
  "fst (send_data whole_repr sim_meter stale_client) = Inl WebSocketClosedError \<and>
   clients (snd (send_data whole_repr sim_meter stale_client)) = [1, 2, 3] \<and>
   trace (snd (send_data whole_repr sim_meter stale_client)) =
     [Read 1, Read 2, Read 3, Read 4, Read 5, Read 6, Read 7, Read 8,
      Send 1 ''[460, 689, 679, 707, 921, 0, 0, 0]'']"
  by (simp add: send_data_def wavelengths_def range_8 GetWavelength_def Let_def sim_meter_def
      stale_client_def idle_world_def py_index_def wavelengths_table_def uniform_def
      random_random_def write_message_def json_dumps_def whole_repr_def str_int_def
      dec.simps digit_def)

text \<open>
  Claim C6, amended. When \<open>write_message\<close> raises for a client, the clients before it in
  the list have been sent the message, those after it are sent nothing, the list of
  clients is unchanged and \<open>WebSocketClosedError\<close> leaves \<open>send_data\<close>.
\<close>

theorem send_data_failure_aborts:
  assumes "clients w = pre @ c # post" and "set pre \<inter> set (closing w) = {}"
    and "c \<in> set (closing w)"
  shows "\<exists>data w1. wavelengths wlmeter w = (Inr data, w1) \<and>
           send_data float_repr wlmeter w =
             (Inl WebSocketClosedError,
              w1\<lparr>trace := trace w1 @ map (\<lambda>c. Send c (json_dumps float_repr data)) pre\<rparr>) \<and>
           clients (snd (send_data float_repr wlmeter w)) = clients w"
proof -
  from wavelengths_returns [of wlmeter w] obtain data w1
    where r: "wavelengths wlmeter w = (Inr data, w1)"
      "clients w1 = clients w" "closing w1 = closing w"
    by blast
  from assms r have "set pre \<inter> set (closing w1) = {}" "c \<in> set (closing w1)"
    by simp_all
  then have "write_each (json_dumps float_repr data) (pre @ c # post) w1 =
      (Inl WebSocketClosedError,
       w1\<lparr>trace := trace w1 @ map (\<lambda>c. Send c (json_dumps float_repr data)) pre\<rparr>)"
    by (rule write_each_stops)
  with assms(1) r have "send_data float_repr wlmeter w =
      (Inl WebSocketClosedError,
       w1\<lparr>trace := trace w1 @ map (\<lambda>c. Send c (json_dumps float_repr data)) pre\<rparr>)"
    by (simp add: send_data_def)
  with r show ?thesis by simp
qed

theorem send_data_failure_aborts_witness:
  "clients stale_client = [1] @ 2 # [3] \<and>
   set [1] \<inter> set (closing stale_client) = {} \<and>
   2 \<in> set (closing stale_client) \<and>
   fst (send_data whole_repr hw_meter stale_client) = Inl WebSocketClosedError \<and>
   clients (snd (send_data whole_repr hw_meter stale_client)) = [1, 2, 3]"
proof -
  have h: "clients stale_client = [1] @ 2 # [3]"
    "set [1] \<inter> set (closing stale_client) = {}" "2 \<in> set (closing stale_client)"
    by (simp_all add: stale_client_def idle_world_def)
  from send_data_failure_aborts [OF h, of hw_meter whole_repr] h
  show ?thesis by auto
qed

section \<open>Closing a connection\<close>

lemma list_remove_absent: "x \<notin> set xs \<Longrightarrow> list_remove x xs = Inl ValueError"
  by (induction xs) auto

lemma list_remove_present: "x \<in> set xs \<Longrightarrow> list_remove x xs = Inr (remove1 x xs)"
  by (induction xs) auto

text \<open>
  Claim C5, as stated, fails: \<open>on_close\<close> for a handler that was never added, or
  that was added and already removed, raises \<open>ValueError\<close>.
\<close>

theorem on_close_unregistered_counterexample:
  "fst (WsHandler_on_close 1 idle_world) = Inl ValueError \<and>
   fst (WsHandler_on_close 1 (snd (WsHandler_on_close 1 (WsHandler_open 1 idle_world)))) =
     Inl ValueError"
  by (simp add: WsHandler_on_close_def WsHandler_open_def idle_world_def)

text \<open>
  Claim C5, amended. \<open>on_close\<close> for a handler in the list removes its first
  occurrence and prints a line; for a handler that is not in the list it raises
  \<open>ValueError\<close> and changes nothing.
\<close>

theorem on_close_removes_or_raises:
  "(self \<in> set (clients w) \<longrightarrow>
      WsHandler_on_close self w =
        (Inr (), w\<lparr>clients := remove1 self (clients w),
                   trace := trace w @ [Print ''connection closed'']\<rparr>)) \<and>
   (self \<notin> set (clients w) \<longrightarrow> WsHandler_on_close self w = (Inl ValueError, w))"
  by (simp add: WsHandler_on_close_def list_remove_absent list_remove_present)

theorem on_close_removes_or_raises_witness:
  "clients (snd (WsHandler_on_close 2 three_clients)) = [1, 3] \<and>
   fst (WsHandler_on_close 2 three_clients) = Inr () \<and>
   WsHandler_on_close 4 three_clients = (Inl ValueError, three_clients)"
  using on_close_removes_or_raises [of 2 three_clients]
    on_close_removes_or_raises [of 4 three_clients]
  by (simp add: three_clients_def idle_world_def)

section \<open>The printed wavelength\<close>

lemma digit_is_digit:
  assumes "d < 10"
  shows "is_digit (digit d)"
proof -
  from assms have "d = 0 \<or> d = 1 \<or> d = 2 \<or> d = 3 \<or> d = 4 \<or> d = 5 \<or> d = 6 \<or> d = 7 \<or>
      d = 8 \<or> d = 9"
    by arith
  then show ?thesis by (auto simp: digit_def is_digit_def)
qed

lemma dec_digits: "list_all is_digit (dec n) \<and> dec n \<noteq> []"
proof (induction n rule: dec.induct)
  case (1 n)
  show ?case
  proof (cases "n < 10")
    case True
    then have "dec n = [digit n]" by (simp add: dec.simps)
    with True show ?thesis by (simp add: digit_is_digit)
  next
    case False
    then have "dec n = dec (n div 10) @ [digit (n mod 10)]"
      by (subst dec.simps) simp
    moreover have "is_digit (digit (n mod 10))" by (simp add: digit_is_digit)
    ultimately show ?thesis using "1.IH" [OF False] by simp
  qed
qed

lemma point_not_digit: "\<not> is_digit CHR ''.''" and minus_not_digit: "\<not> is_digit CHR ''-''"
  by (simp_all add: is_digit_def)

lemma fixed_8_decimals_unsigned:
  assumes "list_all is_digit whole" and "whole \<noteq> []"
    and "list_all is_digit places" and "length places = 8"
  shows "fixed_8_decimals (whole @ CHR ''.'' # places)"
proof -
  from assms(1) have all: "\<And>x. x \<in> set whole \<Longrightarrow> is_digit x"
    by (simp add: list_all_iff)
  from assms(1,2) have "is_digit (hd whole)" by (cases whole) simp_all
  with minus_not_digit have "hd whole \<noteq> CHR ''-''" by auto
  with assms(2) have h: "hd (whole @ CHR ''.'' # places) \<noteq> CHR ''-''" by simp
  have t: "takeWhile is_digit (whole @ CHR ''.'' # places) = whole"
    using all by (simp add: takeWhile_append2 point_not_digit)
  have d: "dropWhile is_digit (whole @ CHR ''.'' # places) = CHR ''.'' # places"
    using all by (simp add: dropWhile_append2 point_not_digit)
  from h t d assms show ?thesis by (simp add: fixed_8_decimals_def)
qed

lemma fixed_8_decimals_signed:
  assumes "list_all is_digit whole" and "whole \<noteq> []"
    and "list_all is_digit places" and "length places = 8"
  shows "fixed_8_decimals (CHR ''-'' # whole @ CHR ''.'' # places)"
proof -
  from assms(1) have all: "\<And>x. x \<in> set whole \<Longrightarrow> is_digit x"
    by (simp add: list_all_iff)
  have t: "takeWhile is_digit (whole @ CHR ''.'' # places) = whole"
    using all by (simp add: takeWhile_append2 point_not_digit)
  have d: "dropWhile is_digit (whole @ CHR ''.'' # places) = CHR ''.'' # places"
    using all by (simp add: dropWhile_append2 point_not_digit)
  from t d assms show ?thesis by (simp add: fixed_8_decimals_def)
qed

lemma fixed_8f_shape: "fixed_8_decimals (fixed_8f x)"
proof -
  define q where "q = nat (round_half_even (\<bar>x\<bar> * 10 ^ 8))"
  define places where "places = map (\<lambda>k. digit (q div 10 ^ k mod 10)) [7, 6, 5, 4, 3, 2, 1, 0]"
  have f: "list_all is_digit places" "length places = 8"
    by (simp_all add: places_def digit_is_digit)
  have w: "list_all is_digit (dec (q div 10 ^ 8))" "dec (q div 10 ^ 8) \<noteq> []"
    using dec_digits [of "q div 10 ^ 8"] by simp_all
  have "fixed_8f x = (if x < 0 then ''-'' else []) @ dec (q div 10 ^ 8) @ ''.'' @ places"
    by (simp add: fixed_8f_def q_def places_def Let_def)
  with fixed_8_decimals_unsigned [OF w f] fixed_8_decimals_signed [OF w f]
  show ?thesis by simp
qed

section \<open>The query handler\<close>

lemma GetWavelength_each_append:
  "GetWavelength_each self (xs @ ys) w =
     (case GetWavelength_each self xs w of
        (Inl e, w') \<Rightarrow> (Inl e, w')
      | (Inr vs, w') \<Rightarrow>
          (case GetWavelength_each self ys w' of
             (Inl e, w'') \<Rightarrow> (Inl e, w'')
           | (Inr us, w'') \<Rightarrow> (Inr (vs @ us), w'')))"
  by (induction xs arbitrary: w) (auto split: prod.splits sum.splits)

lemma GetWavelength_each_length:
  "GetWavelength_each self cs w = (Inr vs, w') \<Longrightarrow> length vs = length cs"
  by (induction cs arbitrary: w vs) (auto split: prod.splits sum.splits)

lemma wavelengths_nth:
  assumes "wavelengths self w = (Inr data, w1)" and "n < 8"
  shows "fst (GetWavelength self (int n + 1)
                (snd (GetWavelength_each self (map int [0..<n]) w))) = Inr (data ! n)"
proof -
  from assms(2) have "[0..<8] = [0..<n] @ n # [Suc n..<8]"
    by (metis upt_add_eq_append upt_conv_Cons le_add_diff_inverse less_imp_le zero_le)
  then have s: "map int [0..<8] = map int [0..<n] @ int n # map int [Suc n..<8]" by simp
  obtain r0 w' where p: "GetWavelength_each self (map int [0..<n]) w = (r0, w')"
    by (cases "GetWavelength_each self (map int [0..<n]) w")
  obtain r1 w'' where g: "GetWavelength self (int n + 1) w' = (r1, w'')"
    by (cases "GetWavelength self (int n + 1) w'")
  obtain r2 w''' where q: "GetWavelength_each self (map int [Suc n..<8]) w'' = (r2, w''')"
    by (cases "GetWavelength_each self (map int [Suc n..<8]) w''")
  from assms(1) have e: "GetWavelength_each self
      (map int [0..<n] @ int n # map int [Suc n..<8]) w = (Inr data, w1)"
    by (simp add: wavelengths_def s)
  from e p g q obtain vs v us where
    r: "r0 = Inr vs" "r1 = Inr v" "r2 = Inr us" "data = vs @ v # us"
    by (auto simp: GetWavelength_each_append split: sum.splits)
  from p r have "length vs = n" by (auto dest: GetWavelength_each_length)
  with r have "data ! n = v" by (simp add: nth_append)
  with p g r show ?thesis by simp
qed

text \<open>
  Claim C1. For every integer \<open>ch\<close> that \<open>int(channel)\<close> gives, the handler returns
  without raising: if \<open>ch < 0\<close> or \<open>ch \<ge> 8\<close> the response has status 400 and the body
  \<open>{"error": "Wrong channel"}\<close>; if \<open>0 \<le> ch < 8\<close> it has status 200 and the body is
  the wavelength at index \<open>ch\<close> of the list just read, printed with \<open>"%.8f"\<close>. (When
  \<open>int(channel)\<close> raises, there is no integer and the error leaves the handler.)
\<close>

theorem ApiHandler_get_channel_check:
  assumes "py_int c = Inr ch"
  shows "(ch < 0 \<or> 8 \<le> ch \<longrightarrow>
            fst (ApiHandler_get wlmeter (Some c) w) =
              Inr \<lparr>status = 400, body = Dict [(''error'', Str ''Wrong channel'')]\<rparr>) \<and>
         (0 \<le> ch \<and> ch < 8 \<longrightarrow>
            (\<exists>data w1. wavelengths wlmeter w = (Inr data, w1) \<and>
               fst (ApiHandler_get wlmeter (Some c) w) =
                 Inr \<lparr>status = 200, body = Str (format_8f (data ! nat ch))\<rparr>))"
proof -
  from wavelengths_returns [of wlmeter w] obtain data w1
    where r: "wavelengths wlmeter w = (Inr data, w1)" "length data = 8"
    by blast
  obtain sw w2 where s: "switcher_mode wlmeter w1 = (sw, w2)"
    by (cases "switcher_mode wlmeter w1")
  from assms r s show ?thesis by (auto simp: ApiHandler_get_def)
qed

lemma py_int_digit_examples:
  "py_int ''9'' = Inr 9" "py_int ''8'' = Inr 8" "py_int ''-1'' = Inr (- 1)"
  "py_int ''2'' = Inr 2" "py_int ''0'' = Inr 0"
  by (simp_all add: py_int_def is_space_def is_digit_def digit_val_def int_max_str_digits_def)

lemma py_int_refused_examples:
  "py_int [CHR 0x1C, CHR ''9''] = Inl ValueError" "py_int ''x'' = Inl ValueError"
  by (simp_all add: py_int_def is_space_def is_digit_def)

lemma sim_idle_data:
  "wavelengths sim_meter idle_world =
     (Inr [PyFloat 460.8618, PyFloat 689.264325, PyFloat 679.288875, PyFloat 707.20175,
           PyFloat 921.72385, PyInt 0, PyInt 0, PyInt 0],
      idle_world\<lparr>trace := [Read 1, Read 2, Read 3, Read 4, Read 5, Read 6, Read 7, Read 8],
                 draws := 5\<rparr>)"
  by (simp add: wavelengths_def range_8 GetWavelength_def Let_def sim_meter_def
      idle_world_def py_index_def wavelengths_table_def uniform_def random_random_def)

lemma fixed_8f_examples:
  "fixed_8f 679.288875 = ''679.28887500''" "fixed_8f 0 = ''0.00000000''"
  "fixed_8f (5434311 / 8000) = ''679.28887500''" "fixed_8f 601 = ''601.00000000''"
  by (simp_all add: fixed_8f_def round_half_even_def dec.simps digit_def Let_def)

theorem ApiHandler_get_channel_check_witness:
  "py_int ''9'' = Inr 9 \<and> py_int ''-1'' = Inr (- 1) \<and> py_int ''2'' = Inr 2 \<and>
   fst (ApiHandler_get sim_meter (Some ''9'') idle_world) =
     Inr \<lparr>status = 400, body = Dict [(''error'', Str ''Wrong channel'')]\<rparr> \<and>
   fst (ApiHandler_get sim_meter (Some ''-1'') idle_world) =
     Inr \<lparr>status = 400, body = Dict [(''error'', Str ''Wrong channel'')]\<rparr> \<and>
   fst (ApiHandler_get sim_meter (Some ''2'') idle_world) =
     Inr \<lparr>status = 200, body = Str ''679.28887500''\<rparr> \<and>
   fst (ApiHandler_get sim_meter (Some [CHR 0x1C, CHR ''9'']) idle_world) = Inl ValueError"
proof -
  have v: "fst (ApiHandler_get sim_meter (Some [CHR 0x1C, CHR ''9'']) idle_world) =
      Inl ValueError"
    by (simp add: ApiHandler_get_def sim_idle_data py_int_refused_examples
        split: prod.splits)
  from ApiHandler_get_channel_check [OF py_int_digit_examples(1), of sim_meter idle_world]
    ApiHandler_get_channel_check [OF py_int_digit_examples(3), of sim_meter idle_world]
    ApiHandler_get_channel_check [OF py_int_digit_examples(4), of sim_meter idle_world]
  show ?thesis using v
    by (simp add: py_int_digit_examples sim_idle_data fixed_8f_examples)
qed

text \<open>
  Claim C7. For every meter, hardware or simulated, and in every world, reading
  \<open>wavelengths\<close> returns a list of exactly eight values, and the handler called
  without a channel answers with that list and the integer switcher mode.
\<close>

theorem ApiHandler_get_snapshot:
  "\<exists>data sw w1 w2. wavelengths wlmeter w = (Inr data, w1) \<and> length data = 8 \<and>
     switcher_mode wlmeter w1 = (sw, w2) \<and>
     ApiHandler_get wlmeter None w =
       (Inr \<lparr>status = 200,
             body = Dict [(''wavelengths'', List (map Num data)),
                          (''switcher_mode'', Num (PyInt sw))]\<rparr>, w2)"
proof -
  from wavelengths_returns [of wlmeter w] obtain data w1
    where r: "wavelengths wlmeter w = (Inr data, w1)" "length data = 8"
    by blast
  obtain sw w2 where s: "switcher_mode wlmeter w1 = (sw, w2)"
    by (cases "switcher_mode wlmeter w1")
  from r s have "ApiHandler_get wlmeter None w =
       (Inr \<lparr>status = 200,
             body = Dict [(''wavelengths'', List (map Num data)),
                          (''switcher_mode'', Num (PyInt sw))]\<rparr>, w2)"
    by (simp add: ApiHandler_get_def)
  with r s show ?thesis by blast
qed

lemma hw_idle_data:
  "wavelengths hw_meter idle_world =
     (Inr [PyFloat 601, PyFloat 602.001, PyFloat 603.002, PyFloat 604.003,
           PyFloat 605.004, PyFloat 606.005, PyFloat 607.006, PyFloat 608.007],
      idle_world\<lparr>trace := [Read 1, Read 2, Read 3, Read 4, Read 5, Read 6, Read 7, Read 8],
                 dll_calls := 8\<rparr>)"
  by (simp add: wavelengths_def range_8 GetWavelength_def Let_def hw_meter_def
      idle_world_def bench_driver_def c_long_def)

theorem ApiHandler_get_snapshot_witness:
  "fst (ApiHandler_get hw_meter None idle_world) =
     Inr \<lparr>status = 200,
          body = Dict [(''wavelengths'',
                        List [Num (PyFloat 601), Num (PyFloat 602.001), Num (PyFloat 603.002),
                              Num (PyFloat 604.003), Num (PyFloat 605.004),
                              Num (PyFloat 606.005), Num (PyFloat 607.006),
                              Num (PyFloat 608.007)]),
                       (''switcher_mode'', Num (PyInt 1))]\<rparr> \<and>
   fst (ApiHandler_get sim_meter None idle_world) =
     Inr \<lparr>status = 200,
          body = Dict [(''wavelengths'',
                        List [Num (PyFloat 460.8618), Num (PyFloat 689.264325),
                              Num (PyFloat 679.288875), Num (PyFloat 707.20175),
                              Num (PyFloat 921.72385), Num (PyInt 0), Num (PyInt 0),
                              Num (PyInt 0)]),
                       (''switcher_mode'', Num (PyInt 0))]\<rparr>"
proof -
  have h: "switcher_mode hw_meter
      (idle_world\<lparr>trace := [Read 1, Read 2, Read 3, Read 4, Read 5, Read 6, Read 7, Read 8],
                 dll_calls := 8\<rparr>) =
      (1, idle_world\<lparr>trace := [Read 1, Read 2, Read 3, Read 4, Read 5, Read 6, Read 7, Read 8],
                 dll_calls := 9\<rparr>)"
    by (simp add: switcher_mode_def hw_meter_def bench_driver_def idle_world_def)
  have s: "switcher_mode sim_meter
      (idle_world\<lparr>trace := [Read 1, Read 2, Read 3, Read 4, Read 5, Read 6, Read 7, Read 8],
                 draws := 5\<rparr>) =
      (0, idle_world\<lparr>trace := [Read 1, Read 2, Read 3, Read 4, Read 5, Read 6, Read 7, Read 8],
                 draws := 5\<rparr>)"
    by (simp add: switcher_mode_def sim_meter_def)
  from ApiHandler_get_snapshot [of hw_meter idle_world]
    ApiHandler_get_snapshot [of sim_meter idle_world]
  show ?thesis using h s by (auto simp: hw_idle_data sim_idle_data)
qed

lemma format_8f_finite:
  "is_finite v \<Longrightarrow> format_8f v = fixed_8f (val v) \<and> fixed_8_decimals (format_8f v)"
  by (cases v) (simp_all add: fixed_8f_shape)

lemma format_8f_nonfinite:
  "\<not> is_finite v \<Longrightarrow> format_8f v \<in> set [''nan'', ''inf'', ''-inf'']"
proof (cases v)
  case (PyNonFinite n)
  then show ?thesis by (cases n) simp_all
qed simp_all

lemma not_fixed_8_decimals_nan: "\<not> fixed_8_decimals ''nan''"
  by (simp add: fixed_8_decimals_def is_digit_def)

text \<open>
  Claim C8, as stated, fails on the hardware: when the library returns a wavelength
  that is not a number, the handler answers channel 0 with \<open>nan\<close>, which has no
  digits after a point.
\<close>

theorem ApiHandler_get_nan_counterexample:
  "py_int ''0'' = Inr 0 \<and>
   fst (ApiHandler_get nan_meter (Some ''0'') idle_world) =
     Inr \<lparr>status = 200, body = Str ''nan''\<rparr> \<and>
   \<not> fixed_8_decimals ''nan''"
  by (simp add: py_int_digit_examples not_fixed_8_decimals_nan ApiHandler_get_def
      wavelengths_def range_8 GetWavelength_def Let_def nan_meter_def nan_driver_def
      bench_driver_def switcher_mode_def)

text \<open>
  Claim C8, amended. For every channel index \<open>ch\<close> from 0 to 7 the handler answers
  with \<open>"%.8f"\<close> of what \<open>GetWavelength(ch + 1)\<close> returned when the list was read, after
  the reads of the channels before it. When that reading is finite the answer is a
  decimal string with exactly eight digits after the point; otherwise it is \<open>nan\<close>,
  \<open>inf\<close> or \<open>-inf\<close>. In debug mode the reading is always finite and lies between
  entry \<open>ch\<close> of the table and that entry plus \<open>(ch + 1) * 0.0001\<close>.
\<close>

theorem ApiHandler_get_channel_value:
  assumes "py_int c = Inr ch" and "0 \<le> ch" and "ch < 8"
  shows "\<exists>data w1. wavelengths wlmeter w = (Inr data, w1) \<and>
           fst (ApiHandler_get wlmeter (Some c) w) =
             Inr \<lparr>status = 200, body = Str (format_8f (data ! nat ch))\<rparr> \<and>
           fst (GetWavelength wlmeter (ch + 1)
                  (snd (GetWavelength_each wlmeter (map int [0..<nat ch]) w))) =
             Inr (data ! nat ch) \<and>
           (is_finite (data ! nat ch) \<longrightarrow>
              format_8f (data ! nat ch) = fixed_8f (val (data ! nat ch)) \<and>
              fixed_8_decimals (format_8f (data ! nat ch))) \<and>
           (\<not> is_finite (data ! nat ch) \<longrightarrow>
              format_8f (data ! nat ch) \<in> set [''nan'', ''inf'', ''-inf'']) \<and>
           (debug wlmeter \<longrightarrow>
              is_finite (data ! nat ch) \<and>
              val (wavelengths_table ! nat ch) \<le> val (data ! nat ch) \<and>
              val (data ! nat ch) \<le>
                val (wavelengths_table ! nat ch) + real_of_int (ch + 1) * 0.0001)"
proof -
  from wavelengths_returns [of wlmeter w] obtain data w1
    where r: "wavelengths wlmeter w = (Inr data, w1)" "length data = 8"
    by blast
  obtain sw w2 where s: "switcher_mode wlmeter w1 = (sw, w2)"
    by (cases "switcher_mode wlmeter w1")
  from assms r s have a: "fst (ApiHandler_get wlmeter (Some c) w) =
      Inr \<lparr>status = 200, body = Str (format_8f (data ! nat ch))\<rparr>"
    by (simp add: ApiHandler_get_def)
  from assms have n: "nat ch < 8" "int (nat ch) = ch" by simp_all
  define w' where "w' = snd (GetWavelength_each wlmeter (map int [0..<nat ch]) w)"
  from wavelengths_nth [OF r(1) n(1)] n(2)
  have g: "fst (GetWavelength wlmeter (ch + 1) w') = Inr (data ! nat ch)"
    by (simp add: w'_def)
  have b: "is_finite (data ! nat ch) \<and>
      val (wavelengths_table ! nat ch) \<le> val (data ! nat ch) \<and>
      val (data ! nat ch) \<le>
        val (wavelengths_table ! nat ch) + real_of_int (ch + 1) * 0.0001"
    if "debug wlmeter"
    using GetWavelength_debug_bounds [OF that assms(2,3), of w'] g by auto
  from r a g b format_8f_finite [of "data ! nat ch"] format_8f_nonfinite [of "data ! nat ch"]
  show ?thesis
    unfolding w'_def by blast
qed

theorem ApiHandler_get_channel_value_witness:
  "py_int ''2'' = Inr 2 \<and> (0::int) \<le> 2 \<and> (2::int) < 8 \<and>
   fst (ApiHandler_get sim_meter (Some ''2'') idle_world) =
     Inr \<lparr>status = 200, body = Str ''679.28887500''\<rparr> \<and>
   fixed_8_decimals ''679.28887500'' \<and>
   val (wavelengths_table ! 2) = 679.2888 \<and>
   fst (ApiHandler_get hw_meter (Some ''0'') idle_world) =
     Inr \<lparr>status = 200, body = Str ''601.00000000''\<rparr>"
proof -
  have d: "fixed_8_decimals ''679.28887500''"
    by (simp add: fixed_8_decimals_def is_digit_def)
  have t: "val (wavelengths_table ! 2) = 679.2888"
    by (simp add: wavelengths_table_def)
  from ApiHandler_get_channel_value [OF py_int_digit_examples(4), of sim_meter idle_world]
    ApiHandler_get_channel_value [OF py_int_digit_examples(5), of hw_meter idle_world]
  show ?thesis using d t
    by (simp add: py_int_digit_examples sim_idle_data hw_idle_data fixed_8f_examples)
qed

section \<open>The pattern data\<close>

lemma randint_each_shape:
  "length (fst (randint_each n w)) = n \<and>
   list_all (\<lambda>x. \<exists>k. x = PyInt k \<and> 0 \<le> k \<and> k \<le> 1000) (fst (randint_each n w))"
proof (induction n arbitrary: w)
  case 0
  show ?case by simp
next
  case (Suc n)
  obtain x w' where r: "randint 0 1000 w = (x, w')" by (cases "randint 0 1000 w")
  obtain xs w'' where e: "randint_each n w' = (xs, w'')" by (cases "randint_each n w'")
  have "rng w (draws w) mod 1001 < 1001" by simp
  with r have "0 \<le> x" "x \<le> 1000" by (auto simp: randint_def)
  with Suc [of w'] r e show ?case by simp
qed

lemma select_ctype_cases:
  "select_ctype 2 = Inr c_ushort" "select_ctype 4 = Inr c_ulong" "select_ctype 8 = Inr c_double"
  "s \<noteq> 2 \<Longrightarrow> s \<noteq> 4 \<Longrightarrow> s \<noteq> 8 \<Longrightarrow> select_ctype s = Inl ValueError"
  by (simp_all add: select_ctype_def)

lemma select_ctype_total: "select_ctype s = Inl ValueError \<or> (\<exists>ct. select_ctype s = Inr ct)"
  by (simp add: select_ctype_def)

text \<open>
  Claim C9, amended. On the hardware, with \<open>n\<close> the item count and \<open>s\<close> the item size
  the library reports: if \<open>n = 0\<close> or \<open>s = 0\<close> the result is \<open>(0, [])\<close>; if \<open>n\<close> is
  positive and \<open>s\<close> is 2, 4 or 8, an array of \<open>n\<close> elements of that width is handed to
  the library and the result is the library's result code with the contents of the
  array; if \<open>n\<close> is negative and \<open>s\<close> is not 0, or \<open>n\<close> is not 0 and \<open>s\<close> is none
  of 0, 2, 4, 8, the call raises \<open>ValueError\<close>. In debug mode the result is code 0 with
  ten integers between 0 and 1000.
\<close>

theorem GetPatternData_cases:
  "(let n = sint (GetPatternItemCount (dll self) (dll_calls w) (c_long index));
        s = sint (GetPatternItemSize (dll self) (dll_calls w + 1) (c_long index));
        filled = (\<lambda>ct. GetPatternDataNum (dll self) (dll_calls w + 3)
                         (c_long channel) (c_long index) (alloc ct (nat n)))
    in (\<not> debug self \<and> (n = 0 \<or> s = 0) \<longrightarrow>
          fst (GetPatternData self channel index w) = Inr (0, [])) \<and>
       (\<not> debug self \<and> 0 < n \<and> s = 2 \<longrightarrow>
          fst (GetPatternData self channel index w) =
            Inr (sint (fst (filled c_ushort)), py_list (snd (filled c_ushort)))) \<and>
       (\<not> debug self \<and> 0 < n \<and> s = 4 \<longrightarrow>
          fst (GetPatternData self channel index w) =
            Inr (sint (fst (filled c_ulong)), py_list (snd (filled c_ulong)))) \<and>
       (\<not> debug self \<and> 0 < n \<and> s = 8 \<longrightarrow>
          fst (GetPatternData self channel index w) =
            Inr (sint (fst (filled c_double)), py_list (snd (filled c_double)))) \<and>
       (\<not> debug self \<and> n < 0 \<and> s \<noteq> 0 \<longrightarrow>
          fst (GetPatternData self channel index w) = Inl ValueError) \<and>
       (\<not> debug self \<and> n \<noteq> 0 \<and> s \<noteq> 0 \<and> s \<noteq> 2 \<and> s \<noteq> 4 \<and> s \<noteq> 8 \<longrightarrow>
          fst (GetPatternData self channel index w) = Inl ValueError)) \<and>
   (debug self \<longrightarrow>
      (\<exists>xs. fst (GetPatternData self channel index w) = Inr (0, xs) \<and> length xs = 10 \<and>
         list_all (\<lambda>x. \<exists>k. x = PyInt k \<and> 0 \<le> k \<and> k \<le> 1000) xs))"
proof -
  define n where "n = sint (GetPatternItemCount (dll self) (dll_calls w) (c_long index))"
  define s where "s = sint (GetPatternItemSize (dll self) (dll_calls w + 1) (c_long index))"
  define filled where "filled = (\<lambda>ct. GetPatternDataNum (dll self) (dll_calls w + 3)
                         (c_long channel) (c_long index) (alloc ct (nat n)))"
  have g: "GetPatternData self channel index w =
      (if n = 0 \<or> s = 0 then (Inr (0, []), w\<lparr>dll_calls := dll_calls w + 2\<rparr>)
       else
         (case select_ctype s of
            Inl e \<Rightarrow> (Inl e, w\<lparr>dll_calls := dll_calls w + 2\<rparr>)
          | Inr ct \<Rightarrow>
              if n < 0 then (Inl ValueError, w\<lparr>dll_calls := dll_calls w + 2\<rparr>)
              else (Inr (sint (fst (filled ct)), py_list (snd (filled ct))),
                    w\<lparr>dll_calls := dll_calls w + 4\<rparr>)))"
    if "\<not> debug self"
    using that
    by (simp add: GetPatternData_def Let_def n_def s_def filled_def split: prod.splits sum.splits)
  have zero: "fst (GetPatternData self channel index w) = Inr (0, [])"
    if "\<not> debug self" "n = 0 \<or> s = 0"
    using that by (simp add: g)
  have pos: "fst (GetPatternData self channel index w) =
      Inr (sint (fst (filled ct)), py_list (snd (filled ct)))"
    if "\<not> debug self" "0 < n" "s \<noteq> 0" "select_ctype s = Inr ct" for ct
    using that by (simp add: g)
  have neg: "fst (GetPatternData self channel index w) = Inl ValueError"
    if "\<not> debug self" "n < 0" "s \<noteq> 0"
    using that select_ctype_total [of s] by (auto simp: g)
  have odd: "fst (GetPatternData self channel index w) = Inl ValueError"
    if "\<not> debug self" "n \<noteq> 0" "s \<noteq> 0" "s \<noteq> 2" "s \<noteq> 4" "s \<noteq> 8"
    using that by (simp add: g select_ctype_cases)
  have sim: "\<exists>xs. fst (GetPatternData self channel index w) = Inr (0, xs) \<and> length xs = 10 \<and>
         list_all (\<lambda>x. \<exists>k. x = PyInt k \<and> 0 \<le> k \<and> k \<le> 1000) xs"
    if "debug self"
  proof -
    obtain xs w' where r: "randint_each 10 w = (xs, w')" by (cases "randint_each 10 w")
    with randint_each_shape [of 10 w] that show ?thesis
      by (simp add: GetPatternData_def)
  qed
  have p2: "fst (GetPatternData self channel index w) =
      Inr (sint (fst (filled c_ushort)), py_list (snd (filled c_ushort)))"
    if "\<not> debug self" "0 < n" "s = 2"
    using that pos [of c_ushort] by (simp add: select_ctype_cases)
  have p4: "fst (GetPatternData self channel index w) =
      Inr (sint (fst (filled c_ulong)), py_list (snd (filled c_ulong)))"
    if "\<not> debug self" "0 < n" "s = 4"
    using that pos [of c_ulong] by (simp add: select_ctype_cases)
  have p8: "fst (GetPatternData self channel index w) =
      Inr (sint (fst (filled c_double)), py_list (snd (filled c_double)))"
    if "\<not> debug self" "0 < n" "s = 8"
    using that pos [of c_double] by (simp add: select_ctype_cases)
  from zero p2 p4 p8 neg odd sim
  have "((\<not> debug self \<and> (n = 0 \<or> s = 0) \<longrightarrow>
          fst (GetPatternData self channel index w) = Inr (0, [])) \<and>
       (\<not> debug self \<and> 0 < n \<and> s = 2 \<longrightarrow>
          fst (GetPatternData self channel index w) =
            Inr (sint (fst (filled c_ushort)), py_list (snd (filled c_ushort)))) \<and>
       (\<not> debug self \<and> 0 < n \<and> s = 4 \<longrightarrow>
          fst (GetPatternData self channel index w) =
            Inr (sint (fst (filled c_ulong)), py_list (snd (filled c_ulong)))) \<and>
       (\<not> debug self \<and> 0 < n \<and> s = 8 \<longrightarrow>
          fst (GetPatternData self channel index w) =
            Inr (sint (fst (filled c_double)), py_list (snd (filled c_double)))) \<and>
       (\<not> debug self \<and> n < 0 \<and> s \<noteq> 0 \<longrightarrow>
          fst (GetPatternData self channel index w) = Inl ValueError) \<and>
       (\<not> debug self \<and> n \<noteq> 0 \<and> s \<noteq> 0 \<and> s \<noteq> 2 \<and> s \<noteq> 4 \<and> s \<noteq> 8 \<longrightarrow>
          fst (GetPatternData self channel index w) = Inl ValueError)) \<and>
   (debug self \<longrightarrow>
      (\<exists>xs. fst (GetPatternData self channel index w) = Inr (0, xs) \<and> length xs = 10 \<and>
         list_all (\<lambda>x. \<exists>k. x = PyInt k \<and> 0 \<le> k \<and> k \<le> 1000) xs))"
    by blast
  then show ?thesis
    unfolding Let_def n_def s_def filled_def .
qed

text \<open>
  Claim C9, as stated, fails: with an item size of 2 and an item count of -1 the call
  raises \<open>ValueError\<close> instead of returning the library's result code and a list.
\<close>

theorem GetPatternData_negative_count_counterexample:
  "sint (GetPatternItemCount (dll negative_count_meter) 0 (c_long 1)) = - 1 \<and>
   sint (GetPatternItemSize (dll negative_count_meter) 1 (c_long 1)) = 2 \<and>
   fst (GetPatternData negative_count_meter 1 1 idle_world) = Inl ValueError"
  by (simp add: GetPatternData_def negative_count_meter_def negative_count_driver_def
      bench_driver_def idle_world_def Let_def select_ctype_def)

theorem GetPatternData_cases_witness:
  "fst (GetPatternData hw_meter 1 1 idle_world) = Inr (7, [PyInt 5, PyInt 5, PyInt 5]) \<and>
   fst (GetPatternData no_items_meter 1 1 idle_world) = Inr (0, []) \<and>
   fst (GetPatternData negative_count_meter 1 1 idle_world) = Inl ValueError \<and>
   fst (GetPatternData odd_size_meter 1 1 idle_world) = Inl ValueError \<and>
   fst (GetPatternData sim_meter 1 1 idle_world) =
     Inr (0, [PyInt 0, PyInt 914, PyInt 827, PyInt 740, PyInt 653, PyInt 566, PyInt 479,
              PyInt 392, PyInt 0, PyInt 914])"
proof -
  have h1: "fst (GetPatternData hw_meter 1 1 idle_world) =
      Inr (7, [PyInt 5, PyInt 5, PyInt 5])"
    by (simp add: GetPatternData_def hw_meter_def bench_driver_def Let_def
        select_ctype_def alloc_def py_list_def numeral_3_eq_3)
  have h2: "fst (GetPatternData no_items_meter 1 1 idle_world) = Inr (0, [])"
    by (simp add: GetPatternData_def no_items_meter_def bench_driver_def Let_def)
  have h3: "fst (GetPatternData negative_count_meter 1 1 idle_world) = Inl ValueError"
    by (simp add: GetPatternData_def negative_count_meter_def negative_count_driver_def
        bench_driver_def Let_def select_ctype_def)
  have h4: "fst (GetPatternData odd_size_meter 1 1 idle_world) = Inl ValueError"
    by (simp add: GetPatternData_def odd_size_meter_def odd_size_driver_def
        bench_driver_def Let_def select_ctype_def)
  have e: "randint_each 10 w =
      randint_each (Suc (Suc (Suc (Suc (Suc (Suc (Suc (Suc (Suc (Suc 0)))))))))) w" for w
    by (simp add: numeral_eq_Suc)
  have h5: "fst (GetPatternData sim_meter 1 1 idle_world) =
     Inr (0, [PyInt 0, PyInt 914, PyInt 827, PyInt 740, PyInt 653, PyInt 566, PyInt 479,
              PyInt 392, PyInt 0, PyInt 914])"
    by (simp add: GetPatternData_def sim_meter_def e randint_def idle_world_def)
  show ?thesis
    using GetPatternData_cases [of hw_meter idle_world 1 1]
    by (simp only: h1 h2 h3 h4 h5 simp_thms)
qed

end
